theory Spec2Isabelle
  imports Complex_Main "HOL-Library.Word" "HOL-Library.Sublist"
begin

unbundle bit_operations_syntax

section \<open>Python values, strings and exceptions\<close>

text \<open>
  The application (\<^verbatim>\<open>app.py\<close>) is a Streamlit script. Its values are dynamically typed:
  what the Awarri endpoint puts under \<^verbatim>\<open>base64_data\<close> is whatever \<^verbatim>\<open>response.json()\<close>
  parsed, and the script tests it with Python's truthiness (\<^verbatim>\<open>if audio_base64:\<close>). The
  values that can flow through the script are therefore modelled by one datatype.
  Floats are reals (their rounding is not modelled). A \<open>char\<close> stands for a code point
  below 256.
\<close>

datatype pyval =
    PNone
  | PBool bool
  | PInt int
  | PFloat real
  | PStr string
  | PList "pyval list"
  | PDict "(string \<times> pyval) list"

text \<open>Python's truth value of an object, as \<^verbatim>\<open>if x:\<close> and \<^verbatim>\<open>not x\<close> compute it.\<close>

fun truthy :: "pyval \<Rightarrow> bool" where
  "truthy PNone = False"
| "truthy (PBool b) = b"
| "truthy (PInt i) = (i \<noteq> 0)"
| "truthy (PFloat x) = (x \<noteq> 0)"
| "truthy (PStr s) = (s \<noteq> [])"
| "truthy (PList xs) = (xs \<noteq> [])"
| "truthy (PDict kvs) = (kvs \<noteq> [])"

text \<open>The result of \<^verbatim>\<open>os.getenv\<close> is \<^verbatim>\<open>None\<close> or a string; both \<^verbatim>\<open>None\<close> and \<^verbatim>\<open>""\<close> are falsy.\<close>

fun truthy_str :: "string option \<Rightarrow> bool" where
  "truthy_str None = False"
| "truthy_str (Some s) = (s \<noteq> [])"

text \<open>A raised exception: its class name and \<^verbatim>\<open>str(e)\<close>.\<close>

datatype py_exception = PyException (exc_type: string) (exc_str: string)

fun type_name :: "pyval \<Rightarrow> string" where
  "type_name PNone = ''NoneType''"
| "type_name (PBool b) = ''bool''"
| "type_name (PInt i) = ''int''"
| "type_name (PFloat x) = ''float''"
| "type_name (PStr s) = ''str''"
| "type_name (PList xs) = ''list''"
| "type_name (PDict kvs) = ''dict''"

definition quoted :: "string \<Rightarrow> string" where
  "quoted s = [CHR 0x27] @ s @ [CHR 0x27]"

text \<open>\<^verbatim>\<open>key in obj\<close> for a string key: membership in a dict's keys, in a list's elements,
  substring of a string; a \<^verbatim>\<open>TypeError\<close> for the other values.\<close>

fun py_contains :: "string \<Rightarrow> pyval \<Rightarrow> py_exception + bool" where
  "py_contains k (PDict kvs) = Inr (k \<in> set (map fst kvs))"
| "py_contains k (PList xs) = Inr (PStr k \<in> set xs)"
| "py_contains k (PStr s) = Inr (sublist k s)"
| "py_contains k v =
     Inl (PyException ''TypeError''
            (''argument of type '' @ quoted (type_name v) @ '' is not iterable''))"

text \<open>\<^verbatim>\<open>obj[key]\<close> for a string key.\<close>

fun py_getitem :: "pyval \<Rightarrow> string \<Rightarrow> py_exception + pyval" where
  "py_getitem (PDict kvs) k =
     (case map_of kvs k of
        Some v \<Rightarrow> Inr v
      | None \<Rightarrow> Inl (PyException ''KeyError'' (quoted k)))"
| "py_getitem (PList xs) k =
     Inl (PyException ''TypeError'' ''list indices must be integers or slices, not str'')"
| "py_getitem (PStr s) k =
     Inl (PyException ''TypeError'' (''string indices must be integers, not '' @ quoted ''str''))"
| "py_getitem v k =
     Inl (PyException ''TypeError''
            (quoted (type_name v) @ '' object is not subscriptable''))"

text \<open>\<^verbatim>\<open>str.strip()\<close> removes leading and trailing whitespace; \<^verbatim>\<open>str.lower()\<close> maps
  the upper-case letters to lower case. Both are given for the code points below 256.\<close>

definition py_isspace :: "char \<Rightarrow> bool" where
  "py_isspace c =
     (let n = (of_char c :: nat)
      in (9 \<le> n \<and> n \<le> 13) \<or> (28 \<le> n \<and> n \<le> 32) \<or> n = 133 \<or> n = 160)"

definition strip :: "string \<Rightarrow> string" where
  "strip s = rev (dropWhile py_isspace (rev (dropWhile py_isspace s)))"

definition lower_char :: "char \<Rightarrow> char" where
  "lower_char c =
     (let n = (of_char c :: nat)
      in if (65 \<le> n \<and> n \<le> 90) \<or> (192 \<le> n \<and> n \<le> 222 \<and> n \<noteq> 215)
         then char_of (n + 32) else c)"

definition lower :: "string \<Rightarrow> string" where
  "lower s = map lower_char s"

text \<open>Decimal rendering of an integer, as an f-string prints it.\<close>

fun str_nat :: "nat \<Rightarrow> string" where
  "str_nat n =
     (if n < 10 then [char_of (48 + n)]
      else str_nat (n div 10) @ [char_of (48 + n mod 10)])"

declare str_nat.simps [simp del]

definition str_int :: "int \<Rightarrow> string" where
  "str_int i = (if i < 0 then CHR ''-'' # str_nat (nat (- i)) else str_nat (nat i))"

section \<open>The standard library's base64 codec\<close>

text \<open>
  \<^verbatim>\<open>base64.b64encode\<close> and \<^verbatim>\<open>base64.b64decode\<close> (called with their default arguments, so
  the decoder does not validate) are the codec of \<^verbatim>\<open>binascii\<close>: the encoder writes four
  characters of the standard alphabet for every three bytes and pads the last group with
  \<^verbatim>\<open>=\<close>; the decoder walks the characters with a position in the current group of four
  (\<open>quad_pos\<close>), the bits left over from the previous character (\<open>leftchar\<close>) and the
  number of pad characters seen in a row (\<open>pads\<close>), skips every character outside the
  alphabet, and stops at a complete pad sequence.
\<close>

type_synonym byte = "8 word"

definition table_b2a_base64 :: string where
  "table_b2a_base64 = ''ABCDEFGHIJKLMNOPQRSTUVWXYZabcdefghijklmnopqrstuvwxyz0123456789+/''"

definition BASE64_PAD :: char where
  "BASE64_PAD = CHR ''=''"

definition b2a :: "byte \<Rightarrow> char" where
  "b2a w = table_b2a_base64 ! unat w"

fun index_of :: "'a \<Rightarrow> 'a list \<Rightarrow> nat option" where
  "index_of x [] = None"
| "index_of x (y # ys) = (if x = y then Some 0 else map_option Suc (index_of x ys))"

text \<open>The inverse table: the value of an alphabet character, nothing for any other.\<close>

definition table_a2b_base64 :: "char \<Rightarrow> byte option" where
  "table_a2b_base64 c = map_option of_nat (index_of c table_b2a_base64)"

fun b2a_base64 :: "byte list \<Rightarrow> string" where
  "b2a_base64 [] = []"
| "b2a_base64 [a] =
     [b2a (drop_bit 2 a), b2a (push_bit 4 (a AND 3)), BASE64_PAD, BASE64_PAD]"
| "b2a_base64 [a, b] =
     [b2a (drop_bit 2 a), b2a (push_bit 4 (a AND 3) OR drop_bit 4 b),
      b2a (push_bit 2 (b AND 15)), BASE64_PAD]"
| "b2a_base64 (a # b # c # bin_data) =
     [b2a (drop_bit 2 a), b2a (push_bit 4 (a AND 3) OR drop_bit 4 b),
      b2a (push_bit 2 (b AND 15) OR drop_bit 6 c), b2a (c AND 63)] @ b2a_base64 bin_data"

text \<open>\<^verbatim>\<open>base64.b64encode(audio_bytes).decode('utf-8')\<close>: the encoder's output is ASCII, so
  decoding it as UTF-8 gives the same characters.\<close>

definition b64encode :: "byte list \<Rightarrow> string" where
  "b64encode s = b2a_base64 s"

definition binascii_Error :: "nat \<Rightarrow> nat \<Rightarrow> py_exception" where
  "binascii_Error quad_pos n_out =
     PyException ''binascii.Error''
       (if quad_pos = 1
        then ''Invalid base64-encoded string: number of data characters (''
             @ str_nat (n_out div 3 * 4 + 1)
             @ '') cannot be 1 more than a multiple of 4''
        else ''Incorrect padding'')"

fun a2b_base64 :: "nat \<Rightarrow> byte \<Rightarrow> nat \<Rightarrow> byte list \<Rightarrow> string \<Rightarrow> py_exception + byte list" where
  "a2b_base64 quad_pos leftchar pads bin_data [] =
     (if quad_pos \<noteq> 0 then Inl (binascii_Error quad_pos (length bin_data)) else Inr bin_data)"
| "a2b_base64 quad_pos leftchar pads bin_data (this_ch # ascii_data) =
     (if this_ch = BASE64_PAD then
        (if quad_pos \<ge> 2 then
           (if quad_pos + (pads + 1) \<ge> 4 then Inr bin_data
            else a2b_base64 quad_pos leftchar (pads + 1) bin_data ascii_data)
         else a2b_base64 quad_pos leftchar pads bin_data ascii_data)
      else
        (case table_a2b_base64 this_ch of
           None \<Rightarrow> a2b_base64 quad_pos leftchar pads bin_data ascii_data
         | Some v \<Rightarrow>
             (if quad_pos = 0 then a2b_base64 1 v 0 bin_data ascii_data
              else if quad_pos = 1 then
                a2b_base64 2 (v AND 15) 0
                  (bin_data @ [push_bit 2 leftchar OR drop_bit 4 v]) ascii_data
              else if quad_pos = 2 then
                a2b_base64 3 (v AND 3) 0
                  (bin_data @ [push_bit 4 leftchar OR drop_bit 2 v]) ascii_data
              else
                a2b_base64 0 0 0 (bin_data @ [push_bit 6 leftchar OR v]) ascii_data)))"

text \<open>\<^verbatim>\<open>base64.b64decode(s)\<close>: a string must be ASCII (\<^verbatim>\<open>ValueError\<close> otherwise), any
  value that is neither a string nor bytes is a \<^verbatim>\<open>TypeError\<close>.\<close>

fun b64decode :: "pyval \<Rightarrow> py_exception + byte list" where
  "b64decode (PStr s) =
     (if list_all (\<lambda>c. (of_char c :: nat) < 128) s then a2b_base64 0 0 0 [] s
      else Inl (PyException ''ValueError'' ''string argument should contain only ASCII characters''))"
| "b64decode v =
     Inl (PyException ''TypeError''
            (''argument should be a bytes-like object or ASCII string, not ''
             @ quoted (type_name v)))"

section \<open>The outside world of one script run\<close>

text \<open>
  The script reads environment variables, builds a Spitch client, posts to the Awarri
  endpoint and reads the clock. One run of the script meets one outcome of each; they
  are the fields of a \<open>world\<close>. A Spitch client is what
  \<^verbatim>\<open>client.speech.generate(...).read()\<close> does with a request: it raises or it returns the
  bytes of the drained stream.
\<close>

record speech_request =
  req_text :: string
  req_language :: string
  req_voice :: string

type_synonym spitch_client = "speech_request \<Rightarrow> py_exception + byte list"

record http_request =
  req_url :: string
  req_headers :: "(string \<times> string) list"
  req_json :: "(string \<times> string) list"

record http_response =
  status_code :: int
  response_text :: string
  response_json :: "py_exception + pyval"

record world =
  getenv :: "string \<Rightarrow> string option"
  Spitch :: "string \<Rightarrow> py_exception + spitch_client"
  requests_post :: "http_request \<Rightarrow> py_exception + http_response"
  start_time :: real
  end_time :: real

text \<open>What a call does besides returning: the messages it shows with \<^verbatim>\<open>st.error\<close> and the
  provider invocations it makes, in order.\<close>

datatype effect =
    St_error string
  | Spitch_generate speech_request
  | Requests_post http_request

section \<open>The provider adapters\<close>

text \<open>
  \<^verbatim>\<open>initialize_spitch\<close>: \<^verbatim>\<open>os.environ["SPITCH_API_KEY"] = os.getenv("SPITCH_API_KEY")\<close> raises
  a \<^verbatim>\<open>TypeError\<close> when the variable is unset, the constructor may raise; either way the
  function shows the error and returns \<^verbatim>\<open>None\<close>. (Streamlit's resource cache returns the
  same client on later calls; it is not modelled.)
\<close>

definition initialize_spitch :: "world \<Rightarrow> spitch_client option \<times> effect list" where
  "initialize_spitch w =
     (case getenv w ''SPITCH_API_KEY'' of
        None \<Rightarrow>
          (None, [St_error (''Failed to initialize Spitch: '' @ ''str expected, not NoneType'')])
      | Some key \<Rightarrow>
          (case Spitch w key of
             Inl e \<Rightarrow> (None, [St_error (''Failed to initialize Spitch: '' @ exc_str e)])
           | Inr client \<Rightarrow> (Some client, [])))"

text \<open>\<^verbatim>\<open>generate_spitch_audio(text, voice)\<close> returns the pair \<^verbatim>\<open>(audio_base64, latency)\<close>,
  \<^verbatim>\<open>(None, 0.0)\<close> on every failure.\<close>

definition generate_spitch_audio :: "world \<Rightarrow> string \<Rightarrow> string \<Rightarrow> (pyval \<times> real) \<times> effect list" where
  "generate_spitch_audio w txt voice =
     (case initialize_spitch w of
        (None, shown) \<Rightarrow> ((PNone, 0), shown)
      | (Some client, shown) \<Rightarrow>
          (let request = \<lparr>req_text = txt, req_language = ''ha'', req_voice = lower voice\<rparr>
           in case client request of
                Inl e \<Rightarrow>
                  ((PNone, 0),
                   shown @ [Spitch_generate request,
                            St_error (''Spitch generation failed: '' @ exc_str e)])
              | Inr audio_bytes \<Rightarrow>
                  ((PStr (b64encode audio_bytes), end_time w - start_time w),
                   shown @ [Spitch_generate request])))"

text \<open>The arguments of \<^verbatim>\<open>requests.post(url, headers=headers, json=data)\<close>: the two
  dicts \<^verbatim>\<open>headers\<close> and \<^verbatim>\<open>data\<close> as the function builds them.\<close>

definition awarri_request :: "string \<Rightarrow> string \<Rightarrow> string \<Rightarrow> http_request" where
  "awarri_request url api_key txt =
     (let headers = [(''accept'', ''application/json''),
                     (''Content-Type'', ''application/json'')];
          data = [(''api_key'', api_key), (''audio_txt'', txt), (''lang'', ''hausa'')]
      in \<lparr>req_url = url, req_headers = headers, req_json = data\<rparr>)"

text \<open>\<^verbatim>\<open>generate_awarri_audio(text)\<close>. Every exception raised inside the \<^verbatim>\<open>try\<close> block (by the
  transport, by \<^verbatim>\<open>response.json()\<close>, by the membership test or the lookup on a parsed value
  that is not a dict) ends in the \<^verbatim>\<open>except\<close> branch.\<close>

definition awarri_failed :: "http_request \<Rightarrow> py_exception \<Rightarrow> (pyval \<times> real) \<times> effect list" where
  "awarri_failed request e =
     ((PNone, 0), [Requests_post request, St_error (''Awarri generation failed: '' @ exc_str e)])"

definition generate_awarri_audio :: "world \<Rightarrow> string \<Rightarrow> (pyval \<times> real) \<times> effect list" where
  "generate_awarri_audio w txt =
     (let url = getenv w ''AWARRI_TTS_URL'';
          api_key = getenv w ''AWARRI_API_KEY''
      in if \<not> truthy_str url \<or> \<not> truthy_str api_key
         then ((PNone, 0), [St_error ''Awarri API credentials not configured''])
         else
           (let request = awarri_request (the url) (the api_key) txt
            in case requests_post w request of
                 Inl e \<Rightarrow> awarri_failed request e
               | Inr response \<Rightarrow>
                   (if status_code response = 200 then
                      (case response_json response of
                         Inl e \<Rightarrow> awarri_failed request e
                       | Inr result \<Rightarrow>
                           (case py_contains ''base64_data'' result of
                              Inl e \<Rightarrow> awarri_failed request e
                            | Inr True \<Rightarrow>
                                (case py_getitem result ''base64_data'' of
                                   Inl e \<Rightarrow> awarri_failed request e
                                 | Inr v \<Rightarrow>
                                     ((v, end_time w - start_time w), [Requests_post request]))
                            | Inr False \<Rightarrow>
                                ((PNone, 0),
                                 [Requests_post request,
                                  St_error ''No 'base64_data' in Awarri response''])))
                    else
                      ((PNone, 0),
                       [Requests_post request,
                        St_error (''Awarri API error: '' @ str_int (status_code response)
                                  @ '' - '' @ response_text response)]))))"

section \<open>Session state, history and playback\<close>

text \<open>
  \<^verbatim>\<open>st.session_state\<close> holds the history list and the two current-generation slots, each
  \<^verbatim>\<open>None\<close> or a dict with the keys \<^verbatim>\<open>audio_base64\<close>, \<^verbatim>\<open>latency\<close>, \<^verbatim>\<open>text\<close> and \<^verbatim>\<open>voice\<close>; a
  history entry has \<^verbatim>\<open>timestamp\<close> and \<^verbatim>\<open>model\<close> besides. The key \<^verbatim>\<open>text\<close> is the field
  \<open>entry_text\<close>. The value of \<^verbatim>\<open>voice\<close> is a string or \<^verbatim>\<open>None\<close>.
\<close>

record current_audio =
  audio_base64 :: pyval
  latency :: real
  entry_text :: string
  voice :: "string option"

record history_entry = current_audio +
  timestamp :: string
  model :: string

record session_state =
  audio_history :: "history_entry list"
  current_spitch_audio :: "current_audio option"
  current_awarri_audio :: "current_audio option"
  text_input :: string

definition initial_state :: session_state where
  "initial_state =
     \<lparr>audio_history = [], current_spitch_audio = None, current_awarri_audio = None,
      text_input = []\<rparr>"

text \<open>\<^verbatim>\<open>add_to_history\<close>; the first argument is the string \<^verbatim>\<open>datetime.now().strftime(...)\<close>
  gives at the call.\<close>

definition add_to_history ::
  "string \<Rightarrow> string \<Rightarrow> string \<Rightarrow> string option \<Rightarrow> pyval \<Rightarrow> real \<Rightarrow> session_state \<Rightarrow> session_state" where
  "add_to_history now txt mdl vc audio lat st =
     (let history_entry =
            \<lparr>audio_base64 = audio, latency = lat, entry_text = txt, voice = vc,
             timestamp = now, model = mdl\<rparr>
      in st\<lparr>audio_history := history_entry # audio_history st\<rparr>)"

definition clear_current_display :: "session_state \<Rightarrow> session_state" where
  "clear_current_display st = st\<lparr>current_spitch_audio := None, current_awarri_audio := None\<rparr>"

text \<open>\<^verbatim>\<open>display_audio_from_base64\<close>: the bytes handed to the audio player, or the exception
  of the decoder.\<close>

definition display_audio_from_base64 :: "pyval \<Rightarrow> py_exception + byte list" where
  "display_audio_from_base64 audio = b64decode audio"

section \<open>The buttons\<close>

text \<open>The select box offers four voices and returns the chosen option.\<close>

datatype spitch_voice = Hasan | Amina | Zainab | Aliyu

fun voice_option :: "spitch_voice \<Rightarrow> string" where
  "voice_option Hasan = ''Hasan''"
| "voice_option Amina = ''Amina''"
| "voice_option Zainab = ''Zainab''"
| "voice_option Aliyu = ''Aliyu''"

text \<open>The two generate buttons. The warning, the spinner and the success message do not
  touch the session state and are left out.\<close>

definition generate_with_spitch :: "world \<Rightarrow> spitch_voice \<Rightarrow> session_state \<Rightarrow> session_state" where
  "generate_with_spitch w voice_selection st =
     (if strip (text_input st) = [] then st
      else
        (case generate_spitch_audio w (text_input st) (voice_option voice_selection) of
           ((audio, lat), shown) \<Rightarrow>
             (if truthy audio
              then st\<lparr>current_spitch_audio :=
                        Some \<lparr>audio_base64 = audio, latency = lat, entry_text = text_input st,
                              voice = Some (voice_option voice_selection)\<rparr>\<rparr>
              else st)))"

definition generate_with_awarri :: "world \<Rightarrow> session_state \<Rightarrow> session_state" where
  "generate_with_awarri w st =
     (if strip (text_input st) = [] then st
      else
        (case generate_awarri_audio w (text_input st) of
           ((audio, lat), shown) \<Rightarrow>
             (if truthy audio
              then st\<lparr>current_awarri_audio :=
                        Some \<lparr>audio_base64 = audio, latency = lat, entry_text = text_input st,
                              voice = None\<rparr>\<rparr>
              else st)))"

text \<open>
  The save buttons live in the "Current Generation" section: the Spitch column plays the
  Spitch slot and then offers its button, the Awarri column after it plays the Awarri slot
  and then offers its own. A player that raises ends the run, so a button placed after it
  is not reached.
\<close>

definition played :: "current_audio option \<Rightarrow> bool" where
  "played slot =
     (case slot of
        None \<Rightarrow> True
      | Some d \<Rightarrow> (case display_audio_from_base64 (audio_base64 d) of Inl e \<Rightarrow> False | Inr b \<Rightarrow> True))"

definition save_spitch :: "string \<Rightarrow> session_state \<Rightarrow> session_state" where
  "save_spitch now st =
     (case current_spitch_audio st of
        None \<Rightarrow> st
      | Some spitch_data \<Rightarrow>
          (if played (Some spitch_data)
           then add_to_history now (entry_text spitch_data) ''Spitch AI'' (voice spitch_data)
                  (audio_base64 spitch_data) (latency spitch_data) st
           else st))"

definition save_awarri :: "string \<Rightarrow> session_state \<Rightarrow> session_state" where
  "save_awarri now st =
     (case current_awarri_audio st of
        None \<Rightarrow> st
      | Some awarri_data \<Rightarrow>
          (if played (current_spitch_audio st) \<and> played (Some awarri_data)
           then add_to_history now (entry_text awarri_data) ''Awarri'' (Some ''Default'')
                  (audio_base64 awarri_data) (latency awarri_data) st
           else st))"

text \<open>The Clear button empties the text input and calls \<^verbatim>\<open>clear_current_display\<close>.\<close>

definition clear_button :: "session_state \<Rightarrow> session_state" where
  "clear_button st = clear_current_display (st\<lparr>text_input := []\<rparr>)"

text \<open>A session is a sequence of user actions, one script run each.\<close>

datatype action =
    Type_text string
  | Clear
  | Generate_spitch world spitch_voice
  | Generate_awarri world
  | Save_spitch string
  | Save_awarri string

fun run_script :: "action \<Rightarrow> session_state \<Rightarrow> session_state" where
  "run_script (Type_text s) st = st\<lparr>text_input := s\<rparr>"
| "run_script Clear st = clear_button st"
| "run_script (Generate_spitch w v) st = generate_with_spitch w v st"
| "run_script (Generate_awarri w) st = generate_with_awarri w st"
| "run_script (Save_spitch now) st = save_spitch now st"
| "run_script (Save_awarri now) st = save_awarri now st"

fun session :: "action list \<Rightarrow> session_state \<Rightarrow> session_state" where
  "session [] st = st"
| "session (a # as) st = session as (run_script a st)"

section \<open>Observations on traces and stored values\<close>

text \<open>The provider invocations in a trace of effects.\<close>

fun spitch_calls :: "effect list \<Rightarrow> speech_request list" where
  "spitch_calls [] = []"
| "spitch_calls (Spitch_generate r # es) = r # spitch_calls es"
| "spitch_calls (e # es) = spitch_calls es"

fun posts :: "effect list \<Rightarrow> http_request list" where
  "posts [] = []"
| "posts (Requests_post r # es) = r # posts es"
| "posts (e # es) = posts es"

fun errors_shown :: "effect list \<Rightarrow> string list" where
  "errors_shown [] = []"
| "errors_shown (St_error m # es) = m # errors_shown es"
| "errors_shown (e # es) = errors_shown es"

text \<open>A trace carries a response's diagnostics when one of the messages it shows contains
  both the status code, in decimal, and the body text.\<close>

definition carries_diagnostics :: "effect list \<Rightarrow> http_response \<Rightarrow> bool" where
  "carries_diagnostics es r =
     list_ex (\<lambda>m. sublist (str_int (status_code r)) m \<and> sublist (response_text r) m)
       (errors_shown es)"



text \<open>The voices found in a state: a Spitch slot holds one of the four offered voices, an
  Awarri slot holds \<^verbatim>\<open>None\<close>; a history entry of model \<^verbatim>\<open>Spitch AI\<close> holds one of the four
  voices, one of model \<^verbatim>\<open>Awarri\<close> holds the string \<^verbatim>\<open>Default\<close>.\<close>

definition offered_voices :: "string list" where
  "offered_voices = map voice_option [Hasan, Amina, Zainab, Aliyu]"

definition entry_voice_ok :: "history_entry \<Rightarrow> bool" where
  "entry_voice_ok e =
     ((model e = ''Spitch AI'' \<and> list_ex (\<lambda>v. voice e = Some v) offered_voices)
      \<or> (model e = ''Awarri'' \<and> voice e = Some ''Default''))"

definition voices_ok :: "session_state \<Rightarrow> bool" where
  "voices_ok st =
     ((case current_spitch_audio st of
         None \<Rightarrow> True
       | Some d \<Rightarrow> list_ex (\<lambda>v. voice d = Some v) offered_voices)
      \<and> (case current_awarri_audio st of None \<Rightarrow> True | Some d \<Rightarrow> voice d = None)
      \<and> list_all entry_voice_ok (audio_history st))"

section \<open>Example worlds\<close>

text \<open>A configured environment, a Spitch client and an Awarri endpoint with fixed
  outcomes, and an environment with no variable set.\<close>

definition example_env :: "string \<Rightarrow> string option" where
  "example_env name =
     (if name = ''SPITCH_API_KEY'' then Some ''spitch-key''
      else if name = ''AWARRI_TTS_URL'' then Some ''https://awarri.example/tts''
      else if name = ''AWARRI_API_KEY'' then Some ''awarri-key''
      else None)"

definition example_world ::
  "(py_exception + byte list) \<Rightarrow> (py_exception + http_response) \<Rightarrow> world" where
  "example_world spitch_outcome post_outcome =
     \<lparr>getenv = example_env,
      Spitch = (\<lambda>key. Inr (\<lambda>request. spitch_outcome)),
      requests_post = (\<lambda>request. post_outcome),
      start_time = 1, end_time = 3\<rparr>"

definition unconfigured_world :: world where
  "unconfigured_world =
     \<lparr>getenv = (\<lambda>name. None),
      Spitch = (\<lambda>key. Inl (PyException ''SpitchError'' ''no API key'')),
      requests_post = (\<lambda>request. Inl (PyException ''ConnectionError'' ''unreachable'')),
      start_time = 1, end_time = 3\<rparr>"

definition ok_response :: "pyval \<Rightarrow> http_response" where
  "ok_response v =
     \<lparr>status_code = 200, response_text = ''{...}'',
      response_json = Inr (PDict [(''base64_data'', v)])\<rparr>"

definition riff :: "byte list" where
  "riff = [82, 73, 70, 70]"

definition example_state :: session_state where
  "example_state =
     \<lparr>audio_history = [],
      current_spitch_audio =
        Some \<lparr>audio_base64 = PStr ''UklGRg=='', latency = 2, entry_text = ''sannu'',
              voice = Some ''Amina''\<rparr>,
      current_awarri_audio =
        Some \<lparr>audio_base64 = PStr ''UklGRg=='', latency = 2, entry_text = ''sannu'',
              voice = None\<rparr>,
      text_input = ''ina kwana''\<rparr>"

definition empty_object_response :: http_response where
  "empty_object_response =
     \<lparr>status_code = 200, response_text = ''{}'', response_json = Inr (PDict [])\<rparr>"

definition server_error_response :: http_response where
  "server_error_response =
     \<lparr>status_code = 500, response_text = ''internal error'',
      response_json = Inl (PyException ''JSONDecodeError'' ''Expecting value'')\<rparr>"


definition awarri_saved :: "pyval \<Rightarrow> session_state" where
  "awarri_saved v =
     session [Type_text ''sannu'',
              Generate_awarri (example_world (Inr riff) (Inr (ok_response v))),
              Save_awarri ''2024-05-01 12:00:00'']
       initial_state"


section \<open>The codec: decoding an encoding gives the bytes back\<close>

text \<open>
  The six-bit groups the encoder cuts out of three bytes, and the bytes the decoder puts
  together from four such groups, are inverse to each other. The identities are shown bit
  by bit.
\<close>

lemma and_3_take_bit: "(a::byte) AND 3 = take_bit 2 a"
  by (simp add: take_bit_eq_mask mask_eq_exp_minus_1)

lemma and_15_take_bit: "(a::byte) AND 15 = take_bit 4 a"
  by (simp add: take_bit_eq_mask mask_eq_exp_minus_1)

lemma and_63_take_bit: "(a::byte) AND 63 = take_bit 6 a"
  by (simp add: take_bit_eq_mask mask_eq_exp_minus_1)

lemma Suc_Suc_diff_2: "2 \<le> n \<Longrightarrow> Suc (Suc (n - 2)) = n"
  by arith

lemmas sextet_bits = bit_simps and_3_take_bit and_15_take_bit and_63_take_bit
lemmas sextet_arith = Suc_Suc_diff_2 le_add_diff_inverse not_le not_less

lemma first_byte_full:
  "push_bit 2 (drop_bit 2 a) OR drop_bit 4 (push_bit 4 (a AND 3) OR drop_bit 4 b) = (a::byte)"
proof (rule bit_word_eqI)
  fix n assume "n < LENGTH(8)"
  then show "bit (push_bit 2 (drop_bit 2 a) OR drop_bit 4 (push_bit 4 (a AND 3) OR drop_bit 4 b)) n
             = bit a n"
    by (cases "n < 2") (auto simp: sextet_bits sextet_arith dest: bit_imp_le_length)
qed

lemma first_byte_last:
  "push_bit 2 (drop_bit 2 a) OR drop_bit 4 (push_bit 4 (a AND 3)) = (a::byte)"
proof (rule bit_word_eqI)
  fix n assume "n < LENGTH(8)"
  then show "bit (push_bit 2 (drop_bit 2 a) OR drop_bit 4 (push_bit 4 (a AND 3))) n = bit a n"
    by (cases "n < 2") (auto simp: sextet_bits sextet_arith dest: bit_imp_le_length)
qed

lemma second_byte_full:
  "push_bit 4 ((push_bit 4 (a AND 3) OR drop_bit 4 b) AND 15)
     OR drop_bit 2 (push_bit 2 (b AND 15) OR drop_bit 6 c) = (b::byte)"
  by (rule bit_word_eqI) (auto simp: sextet_bits sextet_arith dest: bit_imp_le_length)

lemma second_byte_last:
  "push_bit 4 ((push_bit 4 (a AND 3) OR drop_bit 4 b) AND 15)
     OR drop_bit 2 (push_bit 2 (b AND 15)) = (b::byte)"
  by (rule bit_word_eqI) (auto simp: sextet_bits sextet_arith dest: bit_imp_le_length)

lemma third_byte:
  "push_bit 6 ((push_bit 2 (b AND 15) OR drop_bit 6 c) AND 3) OR (c AND 63) = (c::byte)"
  by (rule bit_word_eqI) (auto simp: sextet_bits sextet_arith dest: bit_imp_le_length)

lemma sextet_bound: "take_bit 6 (w::byte) = w \<Longrightarrow> unat w < 64"
proof -
  assume h: "take_bit 6 w = w"
  have "unat (take_bit 6 w) = take_bit 6 (unat w)"
    by (simp add: unsigned_take_bit_eq)
  also have "\<dots> < 2 ^ 6"
    by (rule take_bit_nat_less_exp)
  finally show ?thesis using h by simp
qed

lemma sextet1: "unat (drop_bit 2 (a::byte)) < 64"
  by (rule sextet_bound, rule bit_word_eqI)
     (auto simp: sextet_bits sextet_arith dest: bit_imp_le_length)

lemma sextet2: "unat (push_bit 4 (a AND 3) OR drop_bit 4 (b::byte)) < 64"
  by (rule sextet_bound, rule bit_word_eqI)
     (auto simp: sextet_bits sextet_arith dest: bit_imp_le_length)

lemma sextet2_last: "unat (push_bit 4 ((a::byte) AND 3)) < 64"
  by (rule sextet_bound, rule bit_word_eqI)
     (auto simp: sextet_bits sextet_arith dest: bit_imp_le_length)

lemma sextet3: "unat (push_bit 2 (b AND 15) OR drop_bit 6 (c::byte)) < 64"
  by (rule sextet_bound, rule bit_word_eqI)
     (auto simp: sextet_bits sextet_arith dest: bit_imp_le_length)

lemma sextet3_last: "unat (push_bit 2 ((b::byte) AND 15)) < 64"
  by (rule sextet_bound, rule bit_word_eqI)
     (auto simp: sextet_bits sextet_arith dest: bit_imp_le_length)

lemma sextet4: "unat ((c::byte) AND 63) < 64"
  by (rule sextet_bound, rule bit_word_eqI)
     (auto simp: sextet_bits sextet_arith dest: bit_imp_le_length)

lemmas sextets = sextet1 sextet2 sextet2_last sextet3 sextet3_last sextet4

lemma index_of_nth: "distinct xs \<Longrightarrow> n < length xs \<Longrightarrow> index_of (xs ! n) xs = Some n"
proof (induction xs arbitrary: n)
  case Nil
  then show ?case by simp
next
  case (Cons x xs)
  show ?case
  proof (cases n)
    case 0
    then show ?thesis by simp
  next
    case (Suc m)
    with Cons.prems have "xs ! m \<in> set xs" "x \<notin> set xs" by auto
    then have "xs ! m \<noteq> x" by auto
    with Suc Cons show ?thesis by auto
  qed
qed

lemma length_table: "length table_b2a_base64 = 64"
  by (simp add: table_b2a_base64_def)

lemma distinct_table: "distinct table_b2a_base64"
  by (simp add: table_b2a_base64_def)

lemma pad_not_in_table: "BASE64_PAD \<notin> set table_b2a_base64"
  by (simp add: table_b2a_base64_def BASE64_PAD_def)

lemma table_ascii: "list_all (\<lambda>c. (of_char c :: nat) < 128) table_b2a_base64"
  by (simp add: table_b2a_base64_def)

lemma a2b_b2a: "unat w < 64 \<Longrightarrow> table_a2b_base64 (b2a w) = Some w"
  by (simp add: table_a2b_base64_def b2a_def index_of_nth distinct_table length_table)

lemma b2a_in_table: "unat w < 64 \<Longrightarrow> b2a w \<in> set table_b2a_base64"
  by (simp add: b2a_def length_table)

lemma b2a_not_pad: "unat w < 64 \<Longrightarrow> b2a w \<noteq> BASE64_PAD"
  using pad_not_in_table b2a_in_table by metis

lemma b2a_ascii: "unat w < 64 \<Longrightarrow> (of_char (b2a w) :: nat) < 128"
  using table_ascii b2a_in_table [of w] by (simp add: list_all_iff)

lemma a2b_quad:
  assumes "unat v1 < 64" "unat v2 < 64" "unat v3 < 64" "unat v4 < 64"
  shows "a2b_base64 0 l p bin_data (b2a v1 # b2a v2 # b2a v3 # b2a v4 # rest) =
         a2b_base64 0 0 0
           (bin_data @ [push_bit 2 v1 OR drop_bit 4 v2,
                        push_bit 4 (v2 AND 15) OR drop_bit 2 v3,
                        push_bit 6 (v3 AND 3) OR v4]) rest"
  using assms by (simp add: a2b_b2a b2a_not_pad)

lemma a2b_last_pair:
  assumes "unat v1 < 64" "unat v2 < 64"
  shows "a2b_base64 0 l p bin_data [b2a v1, b2a v2, BASE64_PAD, BASE64_PAD] =
         Inr (bin_data @ [push_bit 2 v1 OR drop_bit 4 v2])"
  using assms by (simp add: a2b_b2a b2a_not_pad)

lemma a2b_last_triple:
  assumes "unat v1 < 64" "unat v2 < 64" "unat v3 < 64"
  shows "a2b_base64 0 l p bin_data [b2a v1, b2a v2, b2a v3, BASE64_PAD] =
         Inr (bin_data @ [push_bit 2 v1 OR drop_bit 4 v2,
                          push_bit 4 (v2 AND 15) OR drop_bit 2 v3])"
  using assms by (simp add: a2b_b2a b2a_not_pad)

lemma a2b_base64_b2a_base64:
  "a2b_base64 0 0 0 bin_data (b2a_base64 s) = Inr (bin_data @ s)"
proof (induction s arbitrary: bin_data rule: b2a_base64.induct)
  case 1
  show ?case by simp
next
  case (2 a)
  show ?case
    by (simp only: b2a_base64.simps a2b_last_pair [OF sextet1 sextet2_last] first_byte_last)
next
  case (3 a b)
  show ?case
    by (simp only: b2a_base64.simps a2b_last_triple [OF sextet1 sextet2 sextet3_last]
          first_byte_full second_byte_last)
next
  case (4 a b c rest)
  show ?case
    by (simp only: b2a_base64.simps append_Cons append_Nil append_assoc
          a2b_quad [OF sextet1 sextet2 sextet3 sextet4]
          first_byte_full second_byte_full third_byte "4.IH")
qed

lemma pad_ascii: "(of_char BASE64_PAD :: nat) < 128"
  by (simp add: BASE64_PAD_def)

lemmas sextets_ascii =
  b2a_ascii [OF sextet1] b2a_ascii [OF sextet2] b2a_ascii [OF sextet2_last]
  b2a_ascii [OF sextet3] b2a_ascii [OF sextet3_last] b2a_ascii [OF sextet4]

lemma b2a_base64_ascii: "list_all (\<lambda>c. (of_char c :: nat) < 128) (b2a_base64 s)"
  by (induction s rule: b2a_base64.induct)
     (simp_all only: b2a_base64.simps list.pred_inject list_all_append sextets_ascii pad_ascii
        simp_thms)

lemma b64decode_b64encode: "b64decode (PStr (b64encode s)) = Inr s"
  by (simp add: b64encode_def b2a_base64_ascii a2b_base64_b2a_base64)

lemma b64encode_empty_iff: "b64encode s = [] \<longleftrightarrow> s = []"
  by (cases s rule: b2a_base64.cases) (simp_all add: b64encode_def)

section \<open>What the adapters return\<close>

lemma spitch_audio_cases:
  "generate_spitch_audio w txt vc = ((a, lat), shown) \<Longrightarrow>
     a = PNone \<or> (\<exists>client sh audio_bytes.
        initialize_spitch w = (Some client, sh) \<and>
        client \<lparr>req_text = txt, req_language = ''ha'', req_voice = lower vc\<rparr> = Inr audio_bytes \<and>
        a = PStr (b64encode audio_bytes))"
  by (auto simp: generate_spitch_audio_def Let_def split: prod.splits option.splits sum.splits)

lemma spitch_audio_ok:
  "initialize_spitch w = (Some client, sh) \<Longrightarrow>
   client \<lparr>req_text = txt, req_language = ''ha'', req_voice = lower vc\<rparr> = Inr audio_bytes \<Longrightarrow>
   generate_spitch_audio w txt vc =
     ((PStr (b64encode audio_bytes), end_time w - start_time w),
      sh @ [Spitch_generate \<lparr>req_text = txt, req_language = ''ha'', req_voice = lower vc\<rparr>])"
  by (simp add: generate_spitch_audio_def Let_def)




lemma generate_with_spitch_history [simp]:
  "audio_history (generate_with_spitch w v st) = audio_history st"
  by (simp add: generate_with_spitch_def split: prod.splits)

lemma generate_with_awarri_history [simp]:
  "audio_history (generate_with_awarri w st) = audio_history st"
  by (simp add: generate_with_awarri_def split: prod.splits)

section \<open>Failures leave the session alone\<close>

text \<open>
  Claim C1. An adapter reports a failure by returning \<^verbatim>\<open>None\<close> for the audio. When the
  Spitch adapter fails, the Spitch button leaves the whole session state as it was: the
  Spitch slot keeps its previous value and the history gets no entry. The same holds for
  the Awarri adapter and the Awarri button.
\<close>

theorem C1_failure_keeps_state:
  "(fst (fst (generate_spitch_audio w (text_input st) (voice_option v))) = PNone
      \<longrightarrow> generate_with_spitch w v st = st)
   \<and> (fst (fst (generate_awarri_audio w (text_input st))) = PNone
      \<longrightarrow> generate_with_awarri w st = st)"
  by (auto simp: generate_with_spitch_def generate_with_awarri_def split: prod.splits)

theorem C1_failure_keeps_state_witness:
  "fst (fst (generate_spitch_audio unconfigured_world (text_input example_state)
               (voice_option Hasan))) = PNone
   \<and> generate_with_spitch unconfigured_world Hasan example_state = example_state
   \<and> fst (fst (generate_awarri_audio unconfigured_world (text_input example_state))) = PNone
   \<and> generate_with_awarri unconfigured_world example_state = example_state
   \<and> current_spitch_audio example_state \<noteq> None
   \<and> current_awarri_audio example_state \<noteq> None"
proof -
  have a: "fst (fst (generate_spitch_audio unconfigured_world (text_input example_state)
               (voice_option Hasan))) = PNone"
    by (simp add: generate_spitch_audio_def initialize_spitch_def unconfigured_world_def)
  have b: "fst (fst (generate_awarri_audio unconfigured_world (text_input example_state))) = PNone"
    by (simp add: generate_awarri_audio_def unconfigured_world_def)
  have c: "current_spitch_audio example_state \<noteq> None \<and> current_awarri_audio example_state \<noteq> None"
    by (simp add: example_state_def)
  show ?thesis
    using C1_failure_keeps_state [of unconfigured_world example_state Hasan] a b c by simp
qed

section \<open>The history\<close>

text \<open>
  Claim C3. \<^verbatim>\<open>add_to_history\<close> inserts at index 0: after saving a first result and then a
  second one into any history, the history reads the second, then the first, then the
  entries it had before, in their order.
\<close>

theorem C3_save_inserts_at_front:
  "audio_history (add_to_history now2 txt2 mdl2 vc2 audio2 lat2
                    (add_to_history now1 txt1 mdl1 vc1 audio1 lat1 st)) =
     \<lparr>audio_base64 = audio2, latency = lat2, entry_text = txt2, voice = vc2,
      timestamp = now2, model = mdl2\<rparr>
     # \<lparr>audio_base64 = audio1, latency = lat1, entry_text = txt1, voice = vc1,
        timestamp = now1, model = mdl1\<rparr>
     # audio_history st"
  by (simp add: add_to_history_def)


section \<open>The Awarri adapter\<close>

text \<open>
  Claim C5. When the endpoint URL or the API key is missing (unset or empty), the Awarri
  adapter fails with the configuration message and its trace holds no POST.
\<close>

theorem C5_unconfigured_awarri_makes_no_request:
  "\<not> truthy_str (getenv w ''AWARRI_TTS_URL'') \<or> \<not> truthy_str (getenv w ''AWARRI_API_KEY'') \<Longrightarrow>
     generate_awarri_audio w txt = ((PNone, 0), [St_error ''Awarri API credentials not configured''])
     \<and> posts (snd (generate_awarri_audio w txt)) = []"
  by (auto simp: generate_awarri_audio_def)

theorem C5_unconfigured_awarri_makes_no_request_witness:
  "\<not> truthy_str (getenv unconfigured_world ''AWARRI_TTS_URL'')
   \<and> generate_awarri_audio unconfigured_world ''sannu'' =
       ((PNone, 0), [St_error ''Awarri API credentials not configured''])
   \<and> posts (snd (generate_awarri_audio unconfigured_world ''sannu'')) = []"
proof -
  have h: "\<not> truthy_str (getenv unconfigured_world ''AWARRI_TTS_URL'')"
    by (simp add: unconfigured_world_def)
  show ?thesis
    using h C5_unconfigured_awarri_makes_no_request [OF disjI1 [OF h], of "''sannu''"] by simp
qed

section \<open>Voices in the slots and in the history\<close>

lemma voice_option_offered: "list_ex (\<lambda>x. Some (voice_option v) = Some x) offered_voices"
  by (cases v) (simp_all add: offered_voices_def)

lemma voices_ok_generate_with_spitch:
  "voices_ok st \<Longrightarrow> voices_ok (generate_with_spitch w v st)"
  using voice_option_offered [of v]
  by (auto simp: voices_ok_def generate_with_spitch_def split: prod.splits)

lemma voices_ok_generate_with_awarri:
  "voices_ok st \<Longrightarrow> voices_ok (generate_with_awarri w st)"
  by (auto simp: voices_ok_def generate_with_awarri_def split: prod.splits)

lemma voices_ok_save_spitch: "voices_ok st \<Longrightarrow> voices_ok (save_spitch now st)"
  by (auto simp: voices_ok_def save_spitch_def add_to_history_def entry_voice_ok_def
           split: option.splits)

lemma voices_ok_save_awarri: "voices_ok st \<Longrightarrow> voices_ok (save_awarri now st)"
  by (auto simp: voices_ok_def save_awarri_def add_to_history_def entry_voice_ok_def
           split: option.splits)

lemma voices_ok_clear_button: "voices_ok st \<Longrightarrow> voices_ok (clear_button st)"
  by (simp add: voices_ok_def clear_button_def clear_current_display_def)

lemma voices_ok_run_script: "voices_ok st \<Longrightarrow> voices_ok (run_script a st)"
proof (cases a)
  case (Type_text s)
  assume "voices_ok st"
  with Type_text show ?thesis by (simp add: voices_ok_def)
next
  case Clear
  assume "voices_ok st"
  with Clear show ?thesis by (simp add: voices_ok_clear_button)
next
  case (Generate_spitch w v)
  assume "voices_ok st"
  with Generate_spitch show ?thesis by (simp add: voices_ok_generate_with_spitch)
next
  case (Generate_awarri w)
  assume "voices_ok st"
  with Generate_awarri show ?thesis by (simp add: voices_ok_generate_with_awarri)
next
  case (Save_spitch now)
  assume "voices_ok st"
  with Save_spitch show ?thesis by (simp add: voices_ok_save_spitch)
next
  case (Save_awarri now)
  assume "voices_ok st"
  with Save_awarri show ?thesis by (simp add: voices_ok_save_awarri)
qed

lemma voices_ok_session: "voices_ok st \<Longrightarrow> voices_ok (session as st)"
  by (induction as arbitrary: st) (simp_all add: voices_ok_run_script)

lemma voices_ok_initial_state: "voices_ok initial_state"
  by (simp add: voices_ok_def initial_state_def)

text \<open>The example session that saves an Awarri result, evaluated.\<close>

lemma decode_riff: "b64decode (PStr ''UklGRg=='') = Inr riff"
  by (simp add: table_a2b_base64_def table_b2a_base64_def BASE64_PAD_def riff_def)

lemma display_riff: "display_audio_from_base64 (PStr ''UklGRg=='') = Inr riff"
  by (simp only: display_audio_from_base64_def decode_riff)

lemma awarri_saved_riff:
  "awarri_saved (PStr ''UklGRg=='') =
     \<lparr>audio_history =
        [\<lparr>audio_base64 = PStr ''UklGRg=='', latency = 2, entry_text = ''sannu'',
          voice = Some ''Default'', timestamp = ''2024-05-01 12:00:00'', model = ''Awarri''\<rparr>],
      current_spitch_audio = None,
      current_awarri_audio =
        Some \<lparr>audio_base64 = PStr ''UklGRg=='', latency = 2, entry_text = ''sannu'',
              voice = None\<rparr>,
      text_input = ''sannu''\<rparr>"
  by (simp add: awarri_saved_def initial_state_def generate_with_awarri_def
        generate_awarri_audio_def example_world_def example_env_def ok_response_def
        awarri_request_def strip_def py_isspace_def save_awarri_def played_def
        display_riff add_to_history_def)

text \<open>
  Claim C2, as stated, fails: the voice of a result is not null exactly for Spitch. The
  entry that the Awarri save button puts into the history has the model \<^verbatim>\<open>Awarri\<close> and
  the voice \<^verbatim>\<open>"Default"\<close>, a string and not \<^verbatim>\<open>None\<close>.
\<close>

theorem C2_counterexample:
  "model (hd (audio_history (awarri_saved (PStr ''UklGRg==''))) ) = ''Awarri''
   \<and> voice (hd (audio_history (awarri_saved (PStr ''UklGRg==''))) ) = Some ''Default''
   \<and> voice (hd (audio_history (awarri_saved (PStr ''UklGRg==''))) ) \<noteq> None"
  by (simp add: awarri_saved_riff)

text \<open>
  Claim C2, amended. In every state a session reaches, the Spitch slot (when filled) holds
  one of the four offered voices and the Awarri slot (when filled) holds \<^verbatim>\<open>None\<close>; in
  the history, every entry is either a \<^verbatim>\<open>Spitch AI\<close> entry with one of the four voices or
  an \<^verbatim>\<open>Awarri\<close> entry with the voice \<^verbatim>\<open>"Default"\<close>.
\<close>

theorem C2_voices_in_slots_and_history:
  "voices_ok (session as initial_state)"
  by (rule voices_ok_session [OF voices_ok_initial_state])

theorem C2_voices_in_slots_and_history_witness:
  "voices_ok (awarri_saved (PStr ''UklGRg==''))
   \<and> audio_history (awarri_saved (PStr ''UklGRg=='')) \<noteq> []
   \<and> current_awarri_audio (awarri_saved (PStr ''UklGRg=='')) \<noteq> None"
proof -
  have "voices_ok (awarri_saved (PStr ''UklGRg==''))"
    unfolding awarri_saved_def by (rule C2_voices_in_slots_and_history)
  then show ?thesis by (simp add: awarri_saved_riff)
qed

section \<open>Error responses of the Awarri endpoint\<close>

lemma awarri_not_200:
  assumes "getenv w ''AWARRI_TTS_URL'' = Some url" "url \<noteq> []"
    and "getenv w ''AWARRI_API_KEY'' = Some api_key" "api_key \<noteq> []"
    and "requests_post w (awarri_request url api_key txt) = Inr r"
    and "status_code r \<noteq> 200"
  shows "generate_awarri_audio w txt =
           ((PNone, 0),
            [Requests_post (awarri_request url api_key txt),
             St_error (''Awarri API error: '' @ str_int (status_code r) @ '' - ''
                       @ response_text r)])"
  using assms by (simp add: generate_awarri_audio_def Let_def)

lemma awarri_missing_field:
  assumes "getenv w ''AWARRI_TTS_URL'' = Some url" "url \<noteq> []"
    and "getenv w ''AWARRI_API_KEY'' = Some api_key" "api_key \<noteq> []"
    and "requests_post w (awarri_request url api_key txt) = Inr r"
    and "status_code r = 200" "response_json r = Inr (PDict kvs)"
    and "''base64_data'' \<notin> set (map fst kvs)"
  shows "generate_awarri_audio w txt =
           ((PNone, 0),
            [Requests_post (awarri_request url api_key txt),
             St_error ''No 'base64_data' in Awarri response''])"
  using assms by (simp add: generate_awarri_audio_def Let_def)

lemma api_error_message_carries:
  "carries_diagnostics
     [Requests_post q, St_error (p @ str_int (status_code r) @ d @ response_text r)] r"
proof -
  have "sublist (str_int (status_code r)) (p @ str_int (status_code r) @ d @ response_text r)"
    by (rule sublist_appendI)
  moreover have "sublist (response_text r)
                   ((p @ str_int (status_code r) @ d) @ response_text r @ [])"
    by (rule sublist_appendI)
  ultimately show ?thesis
    by (simp add: carries_diagnostics_def)
qed

text \<open>
  Claim C4, amended. With the endpoint configured and a response received: a status other
  than 200 gives the failure value and one error message, which contains the status code
  and the body text; a 200 response whose JSON object has no \<^verbatim>\<open>base64_data\<close> key gives the
  failure value and the fixed message \<^verbatim>\<open>No 'base64_data' in Awarri response\<close>. Neither
  case raises, neither returns audio.
\<close>

theorem C4_awarri_error_responses:
  assumes "getenv w ''AWARRI_TTS_URL'' = Some url" "url \<noteq> []"
    and "getenv w ''AWARRI_API_KEY'' = Some api_key" "api_key \<noteq> []"
    and "requests_post w (awarri_request url api_key txt) = Inr r"
  shows "(status_code r \<noteq> 200 \<longrightarrow>
            generate_awarri_audio w txt =
              ((PNone, 0),
               [Requests_post (awarri_request url api_key txt),
                St_error (''Awarri API error: '' @ str_int (status_code r) @ '' - ''
                          @ response_text r)])
            \<and> carries_diagnostics (snd (generate_awarri_audio w txt)) r)
         \<and> (status_code r = 200 \<and> response_json r = Inr (PDict kvs)
              \<and> ''base64_data'' \<notin> set (map fst kvs) \<longrightarrow>
            generate_awarri_audio w txt =
              ((PNone, 0),
               [Requests_post (awarri_request url api_key txt),
                St_error ''No 'base64_data' in Awarri response'']))"
proof (intro conjI impI)
  assume "status_code r \<noteq> 200"
  from awarri_not_200 [OF assms this]
  show g: "generate_awarri_audio w txt =
              ((PNone, 0),
               [Requests_post (awarri_request url api_key txt),
                St_error (''Awarri API error: '' @ str_int (status_code r) @ '' - ''
                          @ response_text r)])" .
  show "carries_diagnostics (snd (generate_awarri_audio w txt)) r"
    by (simp only: g snd_conv api_error_message_carries)
next
  assume "status_code r = 200 \<and> response_json r = Inr (PDict kvs)
              \<and> ''base64_data'' \<notin> set (map fst kvs)"
  then show "generate_awarri_audio w txt =
              ((PNone, 0),
               [Requests_post (awarri_request url api_key txt),
                St_error ''No 'base64_data' in Awarri response''])"
    using awarri_missing_field [OF assms] by blast
qed

lemma example_world_env:
  "getenv (example_world so po) ''AWARRI_TTS_URL'' = Some ''https://awarri.example/tts''"
  "getenv (example_world so po) ''AWARRI_API_KEY'' = Some ''awarri-key''"
  "getenv (example_world so po) ''SPITCH_API_KEY'' = Some ''spitch-key''"
  by (simp_all add: example_world_def example_env_def)

lemma example_world_post: "requests_post (example_world so (Inr r)) q = Inr r"
  by (simp add: example_world_def)

lemma str_int_500: "str_int 500 = ''500''"
  by code_simp

theorem C4_awarri_error_responses_witness:
  "status_code server_error_response \<noteq> 200
   \<and> generate_awarri_audio (example_world (Inr riff) (Inr server_error_response)) ''sannu'' =
       ((PNone, 0),
        [Requests_post (awarri_request ''https://awarri.example/tts'' ''awarri-key'' ''sannu''),
         St_error ''Awarri API error: 500 - internal error''])
   \<and> carries_diagnostics
        (snd (generate_awarri_audio (example_world (Inr riff) (Inr server_error_response))
                ''sannu''))
        server_error_response
   \<and> status_code empty_object_response = 200
   \<and> response_json empty_object_response = Inr (PDict [])
   \<and> generate_awarri_audio (example_world (Inr riff) (Inr empty_object_response)) ''sannu'' =
       ((PNone, 0),
        [Requests_post (awarri_request ''https://awarri.example/tts'' ''awarri-key'' ''sannu''),
         St_error ''No 'base64_data' in Awarri response''])"
proof -
  have a: "status_code server_error_response \<noteq> 200"
    and t: "response_text server_error_response = ''internal error''"
    and s: "status_code server_error_response = 500"
    by (simp_all add: server_error_response_def)
  have b: "status_code empty_object_response = 200"
    "response_json empty_object_response = Inr (PDict [])"
    by (simp_all add: empty_object_response_def)
  have u: "''https://awarri.example/tts'' \<noteq> []" "''awarri-key'' \<noteq> []"
    by simp_all
  note w1 = C4_awarri_error_responses
      [of "example_world (Inr riff) (Inr server_error_response)" _ _ "''sannu''"
          server_error_response "[]",
       OF example_world_env(1) u(1) example_world_env(2) u(2) example_world_post]
  note w2 = C4_awarri_error_responses
      [of "example_world (Inr riff) (Inr empty_object_response)" _ _ "''sannu''"
          empty_object_response "[]",
       OF example_world_env(1) u(1) example_world_env(2) u(2) example_world_post]
  have e: "''Awarri API error: '' @ str_int (status_code server_error_response) @ '' - ''
             @ response_text server_error_response = ''Awarri API error: 500 - internal error''"
    by (simp add: s t str_int_500)
  have r1: "generate_awarri_audio (example_world (Inr riff) (Inr server_error_response)) ''sannu'' =
       ((PNone, 0),
        [Requests_post (awarri_request ''https://awarri.example/tts'' ''awarri-key'' ''sannu''),
         St_error ''Awarri API error: 500 - internal error''])"
    and r1c: "carries_diagnostics
        (snd (generate_awarri_audio (example_world (Inr riff) (Inr server_error_response))
                ''sannu''))
        server_error_response"
    using w1 a unfolding e by blast+
  have r2: "generate_awarri_audio (example_world (Inr riff) (Inr empty_object_response)) ''sannu'' =
       ((PNone, 0),
        [Requests_post (awarri_request ''https://awarri.example/tts'' ''awarri-key'' ''sannu''),
         St_error ''No 'base64_data' in Awarri response''])"
    using w2 b by simp
  from a b r1 r1c r2 show ?thesis
    by blast
qed

lemma not_carried: "\<not> sublist ''{}'' ''No 'base64_data' in Awarri response''"
  by code_simp

text \<open>
  Claim C4, as stated, fails for the 200 response without the field: the message shown
  is the fixed text, and it contains neither the body \<^verbatim>\<open>{}\<close> nor anything else of the
  response.
\<close>

theorem C4_counterexample:
  "\<not> carries_diagnostics
       (snd (generate_awarri_audio (example_world (Inr riff) (Inr empty_object_response))
               ''sannu''))
       empty_object_response"
proof -
  have g: "generate_awarri_audio (example_world (Inr riff) (Inr empty_object_response)) ''sannu'' =
       ((PNone, 0),
        [Requests_post (awarri_request ''https://awarri.example/tts'' ''awarri-key'' ''sannu''),
         St_error ''No 'base64_data' in Awarri response''])"
    by (simp add: generate_awarri_audio_def example_world_def example_env_def
          empty_object_response_def)
  have t: "response_text empty_object_response = ''{}''"
    by (simp add: empty_object_response_def)
  show ?thesis
    by (simp add: g carries_diagnostics_def t not_carried)
qed

section \<open>What the adapters send\<close>

lemma lower_offered:
  "map (\<lambda>v. lower (voice_option v)) [Hasan, Amina, Zainab, Aliyu] =
     [''hasan'', ''amina'', ''zainab'', ''aliyu'']"
  by code_simp

lemma spitch_calls_append: "spitch_calls (xs @ ys) = spitch_calls xs @ spitch_calls ys"
  by (induction xs rule: spitch_calls.induct) simp_all

lemma initialize_spitch_shows_errors:
  "initialize_spitch w = (c, shown) \<Longrightarrow> spitch_calls shown = []"
  by (auto simp: initialize_spitch_def split: option.splits sum.splits)

lemma spitch_calls_generate:
  "initialize_spitch w = (Some client, shown) \<Longrightarrow>
     spitch_calls (snd (generate_spitch_audio w txt vc)) =
       [\<lparr>req_text = txt, req_language = ''ha'', req_voice = lower vc\<rparr>]"
  by (frule initialize_spitch_shows_errors)
     (auto simp: generate_spitch_audio_def Let_def spitch_calls_append split: sum.splits)

lemma posts_generate:
  assumes "getenv w ''AWARRI_TTS_URL'' = Some url" "url \<noteq> []"
    and "getenv w ''AWARRI_API_KEY'' = Some api_key" "api_key \<noteq> []"
  shows "posts (snd (generate_awarri_audio w txt)) = [awarri_request url api_key txt]"
  using assms
  by (auto simp: generate_awarri_audio_def Let_def awarri_failed_def
           split: sum.splits bool.splits)

text \<open>
  Claim C9. When the Spitch client is available, the adapter invokes it exactly once, with
  the text, the language \<^verbatim>\<open>ha\<close> and the lower-cased voice (for the four offered voices:
  \<^verbatim>\<open>hasan\<close>, \<^verbatim>\<open>amina\<close>, \<^verbatim>\<open>zainab\<close>, \<^verbatim>\<open>aliyu\<close>). When the Awarri endpoint is configured, the
  adapter issues exactly one POST, to the configured URL, with the two JSON headers and a
  body of exactly the three fields \<^verbatim>\<open>api_key\<close>, \<^verbatim>\<open>audio_txt\<close> (the text) and \<^verbatim>\<open>lang\<close> (\<^verbatim>\<open>hausa\<close>).
\<close>

theorem C9_provider_requests:
  "(initialize_spitch w = (Some client, shown) \<longrightarrow>
      spitch_calls (snd (generate_spitch_audio w txt vc)) =
        [\<lparr>req_text = txt, req_language = ''ha'', req_voice = lower vc\<rparr>])
   \<and> map (\<lambda>v. lower (voice_option v)) [Hasan, Amina, Zainab, Aliyu] =
        [''hasan'', ''amina'', ''zainab'', ''aliyu'']
   \<and> (getenv w ''AWARRI_TTS_URL'' = Some url \<and> url \<noteq> []
        \<and> getenv w ''AWARRI_API_KEY'' = Some api_key \<and> api_key \<noteq> [] \<longrightarrow>
      posts (snd (generate_awarri_audio w txt)) =
        [\<lparr>req_url = url,
          req_headers = [(''accept'', ''application/json''),
                         (''Content-Type'', ''application/json'')],
          req_json = [(''api_key'', api_key), (''audio_txt'', txt), (''lang'', ''hausa'')]\<rparr>])"
proof (intro conjI impI)
  assume "initialize_spitch w = (Some client, shown)"
  then show "spitch_calls (snd (generate_spitch_audio w txt vc)) =
        [\<lparr>req_text = txt, req_language = ''ha'', req_voice = lower vc\<rparr>]"
    by (rule spitch_calls_generate)
next
  show "map (\<lambda>v. lower (voice_option v)) [Hasan, Amina, Zainab, Aliyu] =
        [''hasan'', ''amina'', ''zainab'', ''aliyu'']"
    by (rule lower_offered)
next
  assume "getenv w ''AWARRI_TTS_URL'' = Some url \<and> url \<noteq> []
        \<and> getenv w ''AWARRI_API_KEY'' = Some api_key \<and> api_key \<noteq> []"
  then have h: "getenv w ''AWARRI_TTS_URL'' = Some url" "url \<noteq> []"
    "getenv w ''AWARRI_API_KEY'' = Some api_key" "api_key \<noteq> []"
    by simp_all
  show "posts (snd (generate_awarri_audio w txt)) =
        [\<lparr>req_url = url,
          req_headers = [(''accept'', ''application/json''),
                         (''Content-Type'', ''application/json'')],
          req_json = [(''api_key'', api_key), (''audio_txt'', txt), (''lang'', ''hausa'')]\<rparr>]"
    by (simp only: posts_generate [OF h] awarri_request_def Let_def)
qed

lemma example_world_client:
  "initialize_spitch (example_world so po) = (Some (\<lambda>request. so), [])"
  by (simp add: initialize_spitch_def example_world_def example_env_def)

theorem C9_provider_requests_witness:
  "initialize_spitch (example_world (Inr riff) (Inr server_error_response))
     = (Some (\<lambda>request. Inr riff), [])
   \<and> spitch_calls (snd (generate_spitch_audio
         (example_world (Inr riff) (Inr server_error_response)) ''sannu'' ''Hasan'')) =
        [\<lparr>req_text = ''sannu'', req_language = ''ha'', req_voice = ''hasan''\<rparr>]
   \<and> getenv (example_world (Inr riff) (Inr server_error_response)) ''AWARRI_TTS_URL''
        = Some ''https://awarri.example/tts''
   \<and> getenv (example_world (Inr riff) (Inr server_error_response)) ''AWARRI_API_KEY''
        = Some ''awarri-key''
   \<and> posts (snd (generate_awarri_audio
         (example_world (Inr riff) (Inr server_error_response)) ''sannu'')) =
        [\<lparr>req_url = ''https://awarri.example/tts'',
          req_headers = [(''accept'', ''application/json''),
                         (''Content-Type'', ''application/json'')],
          req_json = [(''api_key'', ''awarri-key''), (''audio_txt'', ''sannu''),
                      (''lang'', ''hausa'')]\<rparr>]"
proof -
  have l: "lower ''Hasan'' = ''hasan''"
    by code_simp
  have c: "initialize_spitch (example_world (Inr riff) (Inr server_error_response))
     = (Some (\<lambda>request. Inr riff), [])"
    by (rule example_world_client)
  have e: "getenv (example_world (Inr riff) (Inr server_error_response)) ''AWARRI_TTS_URL''
        = Some ''https://awarri.example/tts''"
    "getenv (example_world (Inr riff) (Inr server_error_response)) ''AWARRI_API_KEY''
        = Some ''awarri-key''"
    by (rule example_world_env)+
  note t = C9_provider_requests
      [of "example_world (Inr riff) (Inr server_error_response)" "\<lambda>request. Inr riff" "[]"
          "''sannu''" "''Hasan''" "''https://awarri.example/tts''" "''awarri-key''"]
  have r1: "spitch_calls (snd (generate_spitch_audio
         (example_world (Inr riff) (Inr server_error_response)) ''sannu'' ''Hasan'')) =
        [\<lparr>req_text = ''sannu'', req_language = ''ha'', req_voice = ''hasan''\<rparr>]"
    using t c unfolding l by blast
  have r2: "posts (snd (generate_awarri_audio
         (example_world (Inr riff) (Inr server_error_response)) ''sannu'')) =
        [\<lparr>req_url = ''https://awarri.example/tts'',
          req_headers = [(''accept'', ''application/json''),
                         (''Content-Type'', ''application/json'')],
          req_json = [(''api_key'', ''awarri-key''), (''audio_txt'', ''sannu''),
                      (''lang'', ''hausa'')]\<rparr>]"
    using t e by simp
  from c e r1 r2 show ?thesis by blast
qed

section \<open>A successful Spitch generation\<close>

text \<open>
  Claim C8. For a text that is not blank and has at most 500 characters, and any of the
  four voices: when the Spitch adapter returns audio that the button accepts, the Spitch
  slot holds a result with the text, the requested voice (as offered, not lower-cased) and
  non-empty base64 audio, which plays as a non-empty byte sequence.
\<close>

theorem C8_spitch_success:
  assumes "strip (text_input st) \<noteq> []" "length (text_input st) \<le> 500"
    and "generate_spitch_audio w (text_input st) (voice_option v) = ((a, lat), shown)"
    and "truthy a"
  shows "\<exists>s b. a = PStr s \<and> s \<noteq> []
           \<and> current_spitch_audio (generate_with_spitch w v st) =
               Some \<lparr>audio_base64 = PStr s, latency = lat, entry_text = text_input st,
                     voice = Some (voice_option v)\<rparr>
           \<and> display_audio_from_base64 (PStr s) = Inr b \<and> b \<noteq> []"
proof -
  from spitch_audio_cases [OF assms(3)] assms(4)
  obtain audio_bytes where a: "a = PStr (b64encode audio_bytes)"
    by auto
  with assms(4) have ne: "b64encode audio_bytes \<noteq> []" "audio_bytes \<noteq> []"
    by (auto simp: b64encode_empty_iff)
  have slot: "current_spitch_audio (generate_with_spitch w v st) =
               Some \<lparr>audio_base64 = a, latency = lat, entry_text = text_input st,
                     voice = Some (voice_option v)\<rparr>"
    using assms by (simp add: generate_with_spitch_def)
  have "display_audio_from_base64 (PStr (b64encode audio_bytes)) = Inr audio_bytes"
    by (simp only: display_audio_from_base64_def b64decode_b64encode)
  with a ne slot show ?thesis by blast
qed

lemma encode_riff: "b64encode riff = ''UklGRg==''"
  by (simp add: b64encode_def riff_def b2a_def table_b2a_base64_def BASE64_PAD_def)

lemma example_generate_spitch:
  "generate_spitch_audio (example_world (Inr riff) po) ''ina kwana'' (voice_option Aliyu) =
     ((PStr ''UklGRg=='', 2),
      [Spitch_generate \<lparr>req_text = ''ina kwana'', req_language = ''ha'', req_voice = ''aliyu''\<rparr>])"
proof -
  have l: "lower (voice_option Aliyu) = ''aliyu''"
    by code_simp
  have c: "end_time (example_world (Inr riff) po) - start_time (example_world (Inr riff) po) = 2"
    by (simp add: example_world_def)
  show ?thesis
    by (simp only: spitch_audio_ok [OF example_world_client refl] encode_riff l c append_Nil)
qed

theorem C8_spitch_success_witness:
  "strip (text_input example_state) \<noteq> []
   \<and> length (text_input example_state) \<le> 500
   \<and> generate_spitch_audio (example_world (Inr riff) (Inr server_error_response))
        (text_input example_state) (voice_option Aliyu) =
       ((PStr ''UklGRg=='', 2),
        [Spitch_generate \<lparr>req_text = ''ina kwana'', req_language = ''ha'',
                          req_voice = ''aliyu''\<rparr>])
   \<and> truthy (PStr ''UklGRg=='')
   \<and> (\<exists>s b. PStr ''UklGRg=='' = PStr s \<and> s \<noteq> []
         \<and> current_spitch_audio
              (generate_with_spitch (example_world (Inr riff) (Inr server_error_response))
                 Aliyu example_state) =
             Some \<lparr>audio_base64 = PStr s, latency = 2, entry_text = text_input example_state,
                   voice = Some (voice_option Aliyu)\<rparr>
         \<and> display_audio_from_base64 (PStr s) = Inr b \<and> b \<noteq> [])"
proof -
  have t: "text_input example_state = ''ina kwana''"
    by (simp add: example_state_def)
  have h1: "strip (text_input example_state) \<noteq> []"
    by (simp add: t strip_def py_isspace_def)
  have h2: "length (text_input example_state) \<le> 500"
    by (simp add: t)
  have h3: "generate_spitch_audio (example_world (Inr riff) (Inr server_error_response))
        (text_input example_state) (voice_option Aliyu) =
       ((PStr ''UklGRg=='', 2),
        [Spitch_generate \<lparr>req_text = ''ina kwana'', req_language = ''ha'',
                          req_voice = ''aliyu''\<rparr>])"
    unfolding t by (rule example_generate_spitch)
  have h4: "truthy (PStr ''UklGRg=='')"
    by simp
  from h1 h2 h3 h4 C8_spitch_success [OF h1 h2 h3 h4] show ?thesis
    by blast
qed

section \<open>The stored audio\<close>















section \<open>The round trip\<close>




end
